theory Spec2Isabelle
  imports Complex_Main
begin

section \<open>Model of the component library\<close>

subsection \<open>Body scroll lock (Modal module state)\<close>

text \<open>
  The Modal module keeps two module-level variables, \<open>scrollLockCounter\<close> and
  \<open>originalBodyStyle\<close>, and reads and writes \<open>document.body.style.overflow\<close>.
  The three are the fields of one state record; \<open>bodyOverflow\<close> is the string that
  \<open>body.style.overflow\<close> reads and is assigned. \<open>removeProperty('overflow')\<close> leaves
  the empty string there.
\<close>

record scroll_lock =
  scrollLockCounter :: int
  originalBodyStyle :: "string option"
  bodyOverflow :: string

definition lockBodyScroll :: "scroll_lock \<Rightarrow> scroll_lock" where
  "lockBodyScroll s =
     (let s1 = (if scrollLockCounter s = 0
                then s\<lparr>originalBodyStyle := Some (bodyOverflow s), bodyOverflow := ''hidden''\<rparr>
                else s)
      in s1\<lparr>scrollLockCounter := scrollLockCounter s1 + 1\<rparr>)"

definition unlockBodyScroll :: "scroll_lock \<Rightarrow> scroll_lock" where
  "unlockBodyScroll s =
     (let s1 = s\<lparr>scrollLockCounter := scrollLockCounter s - 1\<rparr>
      in if scrollLockCounter s1 = 0
         then (case originalBodyStyle s1 of
                 Some v \<Rightarrow> s1\<lparr>bodyOverflow := v, originalBodyStyle := None\<rparr>
               | None \<Rightarrow> s1\<lparr>bodyOverflow := []\<rparr>)
         else s1)"

text \<open>
  The module state when the module has just been loaded and the body's inline overflow
  is \<open>v0\<close>.
\<close>

definition initial_scroll_lock :: "string \<Rightarrow> scroll_lock" where
  "initial_scroll_lock v0 =
     \<lparr>scrollLockCounter = 0, originalBodyStyle = None, bodyOverflow = v0\<rparr>"

text \<open>
  The scroll-lock part of the Modal effect. Each Modal instance (a number) runs its effect
  when its dependencies change: the cleanup returned by the previous run is executed first,
  if that run returned one, and the body runs \<open>lockBodyScroll\<close> and returns a cleanup
  (which runs \<open>unlockBodyScroll\<close>) only when its \<open>isOpen\<close> property, the flag
  of \<open>EffectRun\<close>, holds. Unmounting runs the pending cleanup. \<open>lockHolders\<close> is
  the set of instances whose cleanup is pending, that is the modals currently open.
\<close>

datatype modal_event = EffectRun nat bool | Unmount nat

record page =
  lockHolders :: "nat set"
  scrollLock :: scroll_lock

definition runCleanup :: "nat \<Rightarrow> page \<Rightarrow> page" where
  "runCleanup i p =
     (if i \<in> lockHolders p
      then p\<lparr>lockHolders := lockHolders p - {i}, scrollLock := unlockBodyScroll (scrollLock p)\<rparr>
      else p)"

fun modal_effect :: "modal_event \<Rightarrow> page \<Rightarrow> page" where
  "modal_effect (EffectRun i opened) p =
     (let p1 = runCleanup i p
      in if opened
         then p1\<lparr>lockHolders := insert i (lockHolders p1),
                 scrollLock := lockBodyScroll (scrollLock p1)\<rparr>
         else p1)"
| "modal_effect (Unmount i) p = runCleanup i p"

fun run_events :: "modal_event list \<Rightarrow> page \<Rightarrow> page" where
  "run_events [] p = p"
| "run_events (e # es) p = run_events es (modal_effect e p)"

definition initial_page :: "string \<Rightarrow> page" where
  "initial_page v0 = \<lparr>lockHolders = {}, scrollLock = initial_scroll_lock v0\<rparr>"

text \<open>
  What the counter discipline maintains for a page whose body overflow was \<open>v0\<close> before
  the first lock.
\<close>

definition lock_consistent :: "string \<Rightarrow> page \<Rightarrow> bool" where
  "lock_consistent v0 p \<longleftrightarrow>
     finite (lockHolders p) \<and>
     scrollLockCounter (scrollLock p) = int (card (lockHolders p)) \<and>
     bodyOverflow (scrollLock p) = (if lockHolders p = {} then v0 else ''hidden'') \<and>
     originalBodyStyle (scrollLock p) = (if lockHolders p = {} then None else Some v0)"

subsection \<open>DOM elements and the focusable-descendant query\<close>

text \<open>
  A DOM element is identified by a number (\<open>===\<close> on elements is equality of these
  numbers). A subtree is a \<open>node\<close>: the element's identity, its lower-case tag name,
  whether it is an \<open>HTMLElement\<close> (an SVG element is not), its attributes, the
  \<open>display\<close> and \<open>visibility\<close> of its computed style, and its children in document
  order.
\<close>

type_synonym elem = nat

datatype node =
  Node (node_id: elem) (tagName: string) (isHTMLElement: bool)
       (attributes: "(string \<times> string) list") (display: string) (visibility: string)
       (childNodes: "node list")

definition getAttribute :: "node \<Rightarrow> string \<Rightarrow> string option" where
  "getAttribute n a = map_of (attributes n) a"

definition hasAttribute :: "node \<Rightarrow> string \<Rightarrow> bool" where
  "hasAttribute n a \<longleftrightarrow> getAttribute n a \<noteq> None"

text \<open>The selector list \<open>focusableSelectors\<close>, one disjunct per selector, in its order.\<close>

definition focusableSelectors :: "node \<Rightarrow> bool" where
  "focusableSelectors n \<longleftrightarrow>
     (tagName n = ''button'' \<and> \<not> hasAttribute n ''disabled'') \<or>
     (tagName n = ''input'' \<and> \<not> hasAttribute n ''disabled'') \<or>
     (tagName n = ''textarea'' \<and> \<not> hasAttribute n ''disabled'') \<or>
     (tagName n = ''select'' \<and> \<not> hasAttribute n ''disabled'') \<or>
     tagName n = ''details'' \<or>
     (tagName n = ''summary'' \<and> \<not> hasAttribute n ''disabled'') \<or>
     (tagName n = ''a'' \<and> hasAttribute n ''href'') \<or>
     (tagName n = ''audio'' \<and> hasAttribute n ''controls'') \<or>
     (tagName n = ''video'' \<and> hasAttribute n ''controls'') \<or>
     (hasAttribute n ''contenteditable'' \<and> getAttribute n ''contenteditable'' \<noteq> Some ''false'') \<or>
     (hasAttribute n ''tabindex'' \<and> getAttribute n ''tabindex'' \<noteq> Some ''-1'')"

text \<open>The descendants of an element in document order, the element itself excluded.\<close>

fun descendants :: "node \<Rightarrow> node list" where
  "descendants (Node i t h a d v cs) = concat (map (\<lambda>c. c # descendants c) cs)"

definition querySelectorAll :: "node \<Rightarrow> (node \<Rightarrow> bool) \<Rightarrow> node list" where
  "querySelectorAll container sel = filter sel (descendants container)"

definition getFocusableElements :: "node \<Rightarrow> elem list" where
  "getFocusableElements container =
     map node_id
       (filter (\<lambda>element.
                  if isHTMLElement element
                  then display element \<noteq> ''none'' \<and>
                       visibility element \<noteq> ''hidden'' \<and>
                       \<not> hasAttribute element ''aria-hidden''
                  else False)
          (querySelectorAll container focusableSelectors))"

subsection \<open>Modal: properties, references and handlers\<close>

text \<open>
  An optional property is an \<open>option\<close>; a reference property is an optional reference
  whose \<open>current\<close> is an optional element. \<open>forwardedRef\<close> tells whether the caller
  passed a \<open>ref\<close> to the Modal (the second argument of the \<open>forwardRef\<close> render
  function is then not null).
\<close>

record modal_props =
  isOpen :: bool
  closeOnBackdropClick :: "bool option"
  closeOnEscape :: "bool option"
  initialFocusRef :: "elem option option"
  finalFocusRef :: "elem option option"
  forwardedRef :: bool

text \<open>A destructuring default \<open>x = d\<close>: the default applies to an undefined property.\<close>

definition withDefault :: "'a \<Rightarrow> 'a option \<Rightarrow> 'a" where
  "withDefault d v = (case v of None \<Rightarrow> d | Some x \<Rightarrow> x)"

text \<open>
  What a handler does to the outside world, in the order in which it does it:
  \<open>event.preventDefault()\<close>, a call of the \<open>onClose\<close> callback, a call of
  \<open>focus()\<close> on an element.
\<close>

datatype effect = PreventDefault | OnClose | Focus elem

text \<open>
  The references of one Modal instance (the \<open>current\<close> of each), its \<open>isVisible\<close>
  state (here \<open>modalVisible\<close>), and the effects performed so far.
\<close>

record modal_state =
  modalRef :: "node option"
  backdropRef :: "elem option"
  previousActiveElement :: "elem option"
  focusableElements :: "elem list"
  firstFocusableElement :: "elem option"
  lastFocusableElement :: "elem option"
  modalVisible :: bool
  effects :: "effect list"

definition initial_modal_state :: modal_state where
  "initial_modal_state =
     \<lparr>modalRef = None, backdropRef = None, previousActiveElement = None,
      focusableElements = [], firstFocusableElement = None, lastFocusableElement = None,
      modalVisible = False, effects = []\<rparr>"

definition perform :: "effect \<Rightarrow> modal_state \<Rightarrow> modal_state" where
  "perform e st = st\<lparr>effects := effects st @ [e]\<rparr>"

text \<open>\<open>r.current?.focus()\<close>: nothing happens on a null reference.\<close>

definition focusIfPresent :: "elem option \<Rightarrow> modal_state \<Rightarrow> modal_state" where
  "focusIfPresent r st = (case r of None \<Rightarrow> st | Some e \<Rightarrow> perform (Focus e) st)"

text \<open>
  Rendering the open modal mounts the backdrop and the dialog container. The backdrop
  carries \<open>ref={backdropRef}\<close>, the container carries \<open>ref={ref || modalRef}\<close>: when a
  ref was forwarded, the container is attached to it and \<open>modalRef.current\<close> keeps its
  value.
\<close>

definition mountModal :: "modal_props \<Rightarrow> node \<Rightarrow> elem \<Rightarrow> modal_state \<Rightarrow> modal_state" where
  "mountModal props dialog backdrop st =
     st\<lparr>backdropRef := Some backdrop,
        modalRef := (if forwardedRef props then modalRef st else Some dialog)\<rparr>"

definition updateFocusableElements :: "modal_state \<Rightarrow> modal_state" where
  "updateFocusableElements st =
     (case modalRef st of
        None \<Rightarrow> st
      | Some container \<Rightarrow>
          (let fs = getFocusableElements container
           in st\<lparr>focusableElements := fs,
                 firstFocusableElement := (case fs of [] \<Rightarrow> None | x # _ \<Rightarrow> Some x),
                 lastFocusableElement := (if fs = [] then None else Some (last fs))\<rparr>))"

record keyboard_event =
  key :: string
  shiftKey :: bool

text \<open>\<open>activeElement\<close> is what \<open>document.activeElement\<close> reads when the handler runs.\<close>

definition handleKeyDown ::
  "modal_props \<Rightarrow> elem option \<Rightarrow> keyboard_event \<Rightarrow> modal_state \<Rightarrow> modal_state" where
  "handleKeyDown props activeElement event st =
     (if \<not> isOpen props then st
      else if key event = ''Escape'' \<and> withDefault True (closeOnEscape props)
      then perform OnClose (perform PreventDefault st)
      else if key event = ''Tab''
      then (let st1 = updateFocusableElements st
            in if length (focusableElements st1) = 0
               then perform PreventDefault st1
               else if shiftKey event
               then (if activeElement = firstFocusableElement st1
                     then focusIfPresent (lastFocusableElement st1) (perform PreventDefault st1)
                     else st1)
               else (if activeElement = lastFocusableElement st1
                     then focusIfPresent (firstFocusableElement st1) (perform PreventDefault st1)
                     else st1))
      else st)"

definition handleBackdropClick :: "modal_props \<Rightarrow> elem \<Rightarrow> modal_state \<Rightarrow> modal_state" where
  "handleBackdropClick props target st =
     (if withDefault True (closeOnBackdropClick props) \<and> Some target = backdropRef st
      then perform OnClose st
      else st)"

text \<open>
  The effect body for an open modal, as far as the references go: it stores
  \<open>document.activeElement\<close>. (Its call of \<open>lockBodyScroll\<close> is in \<open>modal_effect\<close>.)
\<close>

definition effectOpen :: "elem option \<Rightarrow> modal_state \<Rightarrow> modal_state" where
  "effectOpen activeElement st = st\<lparr>previousActiveElement := activeElement\<rparr>"

text \<open>The callback of \<open>focusTimeout\<close>, run 10 ms after the effect.\<close>

definition focusTimeout :: "modal_props \<Rightarrow> modal_state \<Rightarrow> modal_state" where
  "focusTimeout props st =
     (let st1 = updateFocusableElements (st\<lparr>modalVisible := True\<rparr>)
      in case initialFocusRef props of
           Some (Some target) \<Rightarrow> perform (Focus target) st1
         | _ \<Rightarrow> (case firstFocusableElement st1 of
                   Some first \<Rightarrow> perform (Focus first) st1
                 | None \<Rightarrow> focusIfPresent (map_option node_id (modalRef st1)) st1))"

text \<open>
  The document as the cleanup can see it: which elements are instances of
  \<open>HTMLElement\<close>, and which are attached to the document. The cleanup asks only the
  first question.
\<close>

record document =
  htmlElements :: "elem set"
  connectedElements :: "elem set"

definition effectCleanup :: "document \<Rightarrow> modal_props \<Rightarrow> modal_state \<Rightarrow> modal_state" where
  "effectCleanup doc props st =
     (let st1 = st\<lparr>modalVisible := False\<rparr>
      in case finalFocusRef props of
           Some (Some target) \<Rightarrow> perform (Focus target) st1
         | _ \<Rightarrow> (case previousActiveElement st1 of
                   Some previous \<Rightarrow>
                     if previous \<in> htmlElements doc then perform (Focus previous) st1 else st1
                 | None \<Rightarrow> st1))"

text \<open>
  A modal instance becoming open: its content mounts, the effect runs with
  \<open>activeElement\<close> focused in the document, and the focus timeout fires.
\<close>

definition openModal ::
  "modal_props \<Rightarrow> node \<Rightarrow> elem \<Rightarrow> elem option \<Rightarrow> modal_state" where
  "openModal props dialog backdrop activeElement =
     focusTimeout props (effectOpen activeElement (mountModal props dialog backdrop initial_modal_state))"

subsection \<open>Alert: visibility state and dismissal\<close>

text \<open>
  The Alert holds two state variables, \<open>isVisible\<close> (initially true) and
  \<open>isExiting\<close> (initially false). \<open>pendingTimeouts\<close> counts the callbacks that
  \<open>handleDismiss\<close> has scheduled with \<open>setTimeout\<close> and that have not run yet, and
  \<open>onDismissCalls\<close> counts the executions of \<open>onDismiss?.()\<close>.
\<close>

record alert_state =
  isVisible :: bool
  isExiting :: bool
  pendingTimeouts :: nat
  onDismissCalls :: nat

definition initial_alert_state :: alert_state where
  "initial_alert_state =
     \<lparr>isVisible = True, isExiting = False, pendingTimeouts = 0, onDismissCalls = 0\<rparr>"

text \<open>
  \<open>handleDismiss\<close> is created by a render and closes over that render's
  \<open>dismissible\<close> property and \<open>isExiting\<close> value: these are its first two
  arguments. The state it updates is the component's current state.
\<close>

definition handleDismiss :: "bool \<Rightarrow> bool \<Rightarrow> alert_state \<Rightarrow> alert_state" where
  "handleDismiss dismissible exiting s =
     (if \<not> dismissible \<or> exiting then s
      else s\<lparr>isExiting := True, pendingTimeouts := pendingTimeouts s + 1\<rparr>)"

text \<open>The callback given to \<open>setTimeout\<close>.\<close>

definition dismissTimeout :: "alert_state \<Rightarrow> alert_state" where
  "dismissTimeout s = s\<lparr>isVisible := False, onDismissCalls := onDismissCalls s + 1\<rparr>"

text \<open>The key handler of the dismiss button.\<close>

definition alertHandleKeyDown ::
  "bool \<Rightarrow> bool \<Rightarrow> string \<Rightarrow> alert_state \<Rightarrow> alert_state" where
  "alertHandleKeyDown dismissible exiting k s =
     (if (k = ''Enter'' \<or> k = '' '') \<and> dismissible
      then handleDismiss dismissible exiting s
      else s)"

text \<open>
  What the Alert renders: \<open>null\<close> when \<open>isVisible\<close> is false, otherwise the
  animation wrapper (\<open>AnimatePresence\<close>), to which it passes the alert box, with the
  dismiss button inside, exactly when \<open>isExiting\<close> is false.
\<close>

datatype alert_output = Null | Presence bool

definition alertRender :: "alert_state \<Rightarrow> alert_output" where
  "alertRender s = (if \<not> isVisible s then Null else Presence (\<not> isExiting s))"

text \<open>
  The dismiss button that is on the page, given as the \<open>isExiting\<close> value its handlers
  closed over; \<open>None\<close> when there is no button. When the latest render passes the box to
  the wrapper, the button is the one of that render. When it passes none, the Alert is
  exiting: the wrapper keeps the box it was given last on the page while the exit animation
  plays, and that box comes from a render whose \<open>isExiting\<close> was false, since only such
  a render creates one.
\<close>

definition mountedHandlerExiting :: "alert_state \<Rightarrow> bool option" where
  "mountedHandlerExiting s =
     (case alertRender s of
        Null \<Rightarrow> None
      | Presence boxPassed \<Rightarrow> if boxPassed then Some (isExiting s) else Some False)"

text \<open>
  The events an Alert can receive: a click on the dismiss button, a key pressed on it
  (each with the \<open>dismissible\<close> property of the render that created the button), and the
  timer firing one scheduled callback (nothing fires when none is pending). A click or a
  key press runs the handler of the button that is on the page.
\<close>

datatype alert_event = RequestDismiss bool | KeyDown bool string | TimeoutFires

fun alert_step :: "alert_event \<Rightarrow> alert_state \<Rightarrow> alert_state" where
  "alert_step (RequestDismiss dismissible) s =
     (case mountedHandlerExiting s of
        None \<Rightarrow> s
      | Some exiting \<Rightarrow> handleDismiss dismissible exiting s)"
| "alert_step (KeyDown dismissible k) s =
     (case mountedHandlerExiting s of
        None \<Rightarrow> s
      | Some exiting \<Rightarrow> alertHandleKeyDown dismissible exiting k s)"
| "alert_step TimeoutFires s =
     (if pendingTimeouts s = 0 then s
      else dismissTimeout (s\<lparr>pendingTimeouts := pendingTimeouts s - 1\<rparr>))"

fun run_alert :: "alert_event list \<Rightarrow> alert_state \<Rightarrow> alert_state" where
  "run_alert [] s = s"
| "run_alert (e # es) s = run_alert es (alert_step e s)"

datatype alert_phase = Visible | Exiting | Removed

definition phase :: "alert_state \<Rightarrow> alert_phase" where
  "phase s = (if \<not> isVisible s then Removed else if isExiting s then Exiting else Visible)"

fun phase_rank :: "alert_phase \<Rightarrow> nat" where
  "phase_rank Visible = 0"
| "phase_rank Exiting = 1"
| "phase_rank Removed = 2"

subsection \<open>Rendered elements and component properties\<close>

text \<open>
  A component returns a tree of elements. An element has a type (a native tag, a
  \<open>motion\<close> wrapper of a native tag, or an icon component), its properties in the
  order in which the JSX lists and spreads them, and its children. In the properties object
  the last occurrence of a name wins. The \<open>ref\<close> of an element is not a property and is
  left out. A handler is identified by a number.
\<close>

datatype element_type = Html string | Motion string | Icon string

datatype attr =
  AStr string | ABool bool | ANum real | AHandler nat | ARef string
  | AObj "(string \<times> real) list" | AUndefined

datatype vnode =
  Element element_type "(string \<times> attr) list" "vnode list" | Text string | Number real

fun nativeTag :: "element_type \<Rightarrow> string" where
  "nativeTag (Html t) = t"
| "nativeTag (Motion t) = t"
| "nativeTag (Icon t) = ''svg''"

fun elementType :: "vnode \<Rightarrow> element_type option" where
  "elementType (Element t ps cs) = Some t"
| "elementType (Text x) = None"
| "elementType (Number n) = None"

fun propOf :: "vnode \<Rightarrow> string \<Rightarrow> attr option" where
  "propOf (Element t ps cs) k = map_of (rev ps) k"
| "propOf (Text x) k = None"
| "propOf (Number n) k = None"

fun childrenOf :: "vnode \<Rightarrow> vnode list" where
  "childrenOf (Element t ps cs) = cs"
| "childrenOf (Text x) = []"
| "childrenOf (Number n) = []"

text \<open>
  The truthiness of a node given as a property: an element is truthy, the empty string
  and the number 0 are falsy.
\<close>

fun truthyNode :: "vnode \<Rightarrow> bool" where
  "truthyNode (Element t ps cs) = True"
| "truthyNode (Text x) = (x \<noteq> [])"
| "truthyNode (Number n) = (n \<noteq> 0)"

text \<open>
  \<open>ComponentBaseProps\<close>, together with \<open>rest\<close>: the properties the caller passed
  that the component's parameter pattern does not name, which the pattern collects in
  \<open>...props\<close>. \<open>restProps named p\<close> is that object; a property the pattern names is
  never part of it.
\<close>

record component_props =
  className :: "string option"
  children :: "vnode list"
  rest :: "(string \<times> attr) list"

definition restProps :: "string list \<Rightarrow> 'a component_props_scheme \<Rightarrow> (string \<times> attr) list" where
  "restProps named p = filter (\<lambda>(k, v). k \<notin> set named) (rest p)"

fun join :: "string \<Rightarrow> string list \<Rightarrow> string" where
  "join sep [] = []"
| "join sep [x] = x"
| "join sep (x # y # ys) = x @ sep @ join sep (y # ys)"

text \<open>
  \<open>[...].filter(Boolean).join(' ')\<close> on class names: an entry is a string or a falsy
  value (\<open>undefined\<close>, \<open>false\<close>; here \<open>None\<close>); the empty string is falsy too.
\<close>

definition classNames :: "string option list \<Rightarrow> string" where
  "classNames cs = join '' '' [c. Some c \<leftarrow> cs, c \<noteq> []]"

definition optAttr :: "string option \<Rightarrow> attr" where
  "optAttr v = (case v of None \<Rightarrow> AUndefined | Some c \<Rightarrow> AStr c)"

datatype ComponentVariant = primary | secondary | outline

datatype ComponentSize = sm | md | lg

fun variantName :: "ComponentVariant \<Rightarrow> string" where
  "variantName primary = ''primary''"
| "variantName secondary = ''secondary''"
| "variantName outline = ''outline''"

fun sizeName :: "ComponentSize \<Rightarrow> string" where
  "sizeName sm = ''sm''"
| "sizeName md = ''md''"
| "sizeName lg = ''lg''"

subsection \<open>Sub-region components of Modal and Card\<close>

text \<open>
  The value the Modal provides to its subtree. A component's \<open>context\<close> argument is what
  \<open>useContext(ModalContext)\<close> returns where it is rendered: \<open>None\<close> outside every
  Modal. A thrown \<open>Error\<close> is \<open>Inl\<close> of its message. The \<open>styles\<close> argument is the
  CSS-module object of the component's style sheet, from class key to class name.
\<close>

record modal_context =
  onClose :: nat
  titleId :: string

record modal_header_props = component_props +
  showCloseButton :: "bool option"

definition ModalHeader ::
  "(string \<Rightarrow> string option) \<Rightarrow> modal_context option \<Rightarrow> modal_header_props \<Rightarrow> string + vnode" where
  "ModalHeader styles context props =
     (case context of
        None \<Rightarrow> Inl ''ModalHeader must be used within a Modal component''
      | Some ctx \<Rightarrow>
          Inr (Element (Html ''div'')
                 ((''className'', AStr (classNames [styles ''header'', className props]))
                  # restProps [''className'', ''children'', ''showCloseButton''] props)
                 (Element (Html ''div'')
                    [(''id'', AStr (titleId ctx)), (''className'', optAttr (styles ''title''))]
                    (children props)
                  # (if withDefault True (showCloseButton props)
                     then [Element (Motion ''button'')
                             [(''type'', AStr ''button''),
                              (''className'', optAttr (styles ''closeButton'')),
                              (''onClick'', AHandler (onClose ctx)),
                              (''aria-label'', AStr ''Close modal''),
                              (''whileHover'', AObj [(''scale'', 1.05)]),
                              (''whileTap'', AObj [(''scale'', 0.95)])]
                             [Element (Icon ''X'')
                                [(''className'', optAttr (styles ''closeIcon'')),
                                 (''aria-hidden'', AStr ''true'')] []]]
                     else []))))"

definition ModalBody ::
  "(string \<Rightarrow> string option) \<Rightarrow> modal_context option \<Rightarrow> component_props \<Rightarrow> string + vnode" where
  "ModalBody styles context props =
     (case context of
        None \<Rightarrow> Inl ''ModalBody must be used within a Modal component''
      | Some ctx \<Rightarrow>
          Inr (Element (Html ''div'')
                 ((''className'', AStr (classNames [styles ''body'', className props]))
                  # restProps [''className'', ''children''] props)
                 (children props)))"

definition ModalFooter ::
  "(string \<Rightarrow> string option) \<Rightarrow> modal_context option \<Rightarrow> component_props \<Rightarrow> string + vnode" where
  "ModalFooter styles context props =
     (case context of
        None \<Rightarrow> Inl ''ModalFooter must be used within a Modal component''
      | Some ctx \<Rightarrow>
          Inr (Element (Html ''div'')
                 ((''className'', AStr (classNames [styles ''footer'', className props]))
                  # restProps [''className'', ''children''] props)
                 (children props)))"

definition CardHeader :: "(string \<Rightarrow> string option) \<Rightarrow> component_props \<Rightarrow> vnode" where
  "CardHeader styles props =
     Element (Motion ''div'')
       ((''className'', AStr (classNames [styles ''header'', className props]))
        # restProps [''children'', ''className''] props)
       (children props)"

definition CardBody :: "(string \<Rightarrow> string option) \<Rightarrow> component_props \<Rightarrow> vnode" where
  "CardBody styles props =
     Element (Motion ''div'')
       ((''className'', AStr (classNames [styles ''body'', className props]))
        # restProps [''children'', ''className''] props)
       (children props)"

definition CardFooter :: "(string \<Rightarrow> string option) \<Rightarrow> component_props \<Rightarrow> vnode" where
  "CardFooter styles props =
     Element (Motion ''div'')
       ((''className'', AStr (classNames [styles ''footer'', className props]))
        # restProps [''children'', ''className''] props)
       (children props)"

text \<open>
  The six header, body and footer components of the library, each rendered at a place
  where \<open>useContext(ModalContext)\<close> yields \<open>context\<close>. The Card parts read no context.
\<close>

datatype sub_region =
  ModalHeaderRegion | ModalBodyRegion | ModalFooterRegion
  | CardHeaderRegion | CardBodyRegion | CardFooterRegion

definition renderSubRegion ::
  "(string \<Rightarrow> string option) \<Rightarrow> (string \<Rightarrow> string option) \<Rightarrow> modal_context option \<Rightarrow>
   sub_region \<Rightarrow> modal_header_props \<Rightarrow> string + vnode" where
  "renderSubRegion modalStyles cardStyles context r props =
     (case r of
        ModalHeaderRegion \<Rightarrow> ModalHeader modalStyles context props
      | ModalBodyRegion \<Rightarrow> ModalBody modalStyles context (component_props.truncate props)
      | ModalFooterRegion \<Rightarrow> ModalFooter modalStyles context (component_props.truncate props)
      | CardHeaderRegion \<Rightarrow> Inr (CardHeader cardStyles (component_props.truncate props))
      | CardBodyRegion \<Rightarrow> Inr (CardBody cardStyles (component_props.truncate props))
      | CardFooterRegion \<Rightarrow> Inr (CardFooter cardStyles (component_props.truncate props)))"

subsection \<open>Button\<close>

record button_props = component_props +
  variant :: "ComponentVariant option"
  size_prop :: "ComponentSize option"
  loading :: "bool option"
  disabled :: "bool option"
  fullWidth :: "bool option"
  leftIcon :: "vnode option"
  rightIcon :: "vnode option"
  type_prop :: "string option"
  disableAnimations :: "bool option"

text \<open>The spinner the Button shows while loading.\<close>

definition buttonSpinner :: "(string \<Rightarrow> string option) \<Rightarrow> vnode" where
  "buttonSpinner styles =
     Element (Motion ''span'')
       [(''className'', optAttr (styles ''spinner'')), (''aria-hidden'', AStr ''true''),
        (''variants'', ARef ''spinnerRotate''), (''animate'', AStr ''animate'')]
       [Element (Icon ''Loader2'') [(''className'', optAttr (styles ''spinnerIcon''))] []]"

definition buttonIcon :: "(string \<Rightarrow> string option) \<Rightarrow> string \<Rightarrow> vnode \<Rightarrow> vnode" where
  "buttonIcon styles side icon =
     Element (Html ''span'')
       [(''className'', optAttr (styles side)), (''aria-hidden'', AStr ''true'')] [icon]"

text \<open>
  \<open>leftIcon\<close> and \<open>rightIcon\<close> are \<open>None\<close> when the property is missing (or null).
  \<open>!loading && leftIcon && (...)\<close> wraps a truthy icon in its span and, when the
  button is not loading, hands a falsy one on as it is.
\<close>

definition buttonClasses :: "(string \<Rightarrow> string option) \<Rightarrow> button_props \<Rightarrow> string" where
  "buttonClasses styles p =
     (let loading' = withDefault False (loading p);
          isDisabled = (withDefault False (disabled p) \<or> loading')
      in classNames
           [Some ''zyfi-components'',
            styles ''button'',
            styles (''variant-'' @ variantName (withDefault primary (variant p))),
            styles (''size-'' @ sizeName (withDefault md (size_prop p))),
            if loading' then styles ''loading'' else None,
            if isDisabled then styles ''disabled'' else None,
            if withDefault False (fullWidth p) then styles ''fullWidth'' else None,
            className p])"

definition buttonMotionProps :: "button_props \<Rightarrow> (string \<times> attr) list" where
  "buttonMotionProps p =
     (let disableAnimations' = withDefault False (disableAnimations p);
          isDisabled = (withDefault False (disabled p) \<or> withDefault False (loading p))
      in [(''variants'', if \<not> disableAnimations' then ARef ''buttonHover'' else AUndefined),
          (''whileHover'',
             if \<not> isDisabled \<and> \<not> disableAnimations' then AStr ''hover'' else AUndefined),
          (''whileTap'',
             if \<not> isDisabled \<and> \<not> disableAnimations' then AStr ''tap'' else AUndefined)])"

definition Button :: "(string \<Rightarrow> string option) \<Rightarrow> button_props \<Rightarrow> vnode" where
  "Button styles p =
     (let loading' = withDefault False (loading p);
          isDisabled = (withDefault False (disabled p) \<or> loading')
      in Element (Motion ''button'')
           ([(''type'', AStr (withDefault ''button'' (type_prop p))),
             (''className'', AStr (buttonClasses styles p)),
             (''disabled'', ABool isDisabled),
             (''aria-busy'', ABool loading'),
             (''aria-disabled'', ABool isDisabled)]
            @ buttonMotionProps p
            @ restProps [''children'', ''className'', ''variant'', ''size'', ''loading'',
                ''disabled'', ''fullWidth'', ''leftIcon'', ''rightIcon'', ''type'',
                ''disableAnimations''] p)
           ((if loading' then [buttonSpinner styles] else [])
            @ (case leftIcon p of
                 Some icon \<Rightarrow>
                   if \<not> loading'
                   then (if truthyNode icon then [buttonIcon styles ''leftIcon'' icon] else [icon])
                   else []
               | None \<Rightarrow> [])
            @ [Element (Html ''span'') [(''className'', optAttr (styles ''content''))] (children p)]
            @ (case rightIcon p of
                 Some icon \<Rightarrow>
                   if \<not> loading'
                   then (if truthyNode icon then [buttonIcon styles ''rightIcon'' icon] else [icon])
                   else []
               | None \<Rightarrow> [])))"

subsection \<open>Card\<close>

datatype elevation_level = low | medium | high

fun elevationName :: "elevation_level \<Rightarrow> string" where
  "elevationName low = ''low''"
| "elevationName medium = ''medium''"
| "elevationName high = ''high''"

record card_props = component_props +
  elevation :: "elevation_level option"
  padding :: "ComponentSize option"
  hover :: "bool option"
  onClick :: "nat option"
  animate_prop :: "bool option"
  animationDelay :: "real option"
  isStaggerChild :: "bool option"

text \<open>
  \<open>CardProps\<close> declares no property beyond those the Card names, so the only further
  properties a type-checked caller can pass are attributes with a hyphen in their name
  (\<open>data-*\<close>, \<open>aria-*\<close>), which JSX accepts on every component.
\<close>

definition card_props_typed :: "card_props \<Rightarrow> bool" where
  "card_props_typed p \<longleftrightarrow> list_all (\<lambda>(k, v). CHR ''-'' \<in> set k) (rest p)"

definition cardClasses :: "(string \<Rightarrow> string option) \<Rightarrow> card_props \<Rightarrow> string" where
  "cardClasses styles p =
     classNames
       [Some ''zyfi-components'',
        styles ''card'',
        styles (''elevation-'' @ elevationName (withDefault medium (elevation p))),
        styles (''padding-'' @ sizeName (withDefault md (padding p))),
        if withDefault False (hover p) then styles ''hover'' else None,
        if onClick p \<noteq> None then styles ''interactive'' else None,
        className p]"

definition cardMotionProps :: "card_props \<Rightarrow> (string \<times> attr) list" where
  "cardMotionProps p =
     (let hover' = withDefault False (hover p);
          animate' = withDefault True (animate_prop p);
          isStaggerChild' = withDefault False (isStaggerChild p);
          isInteractive = (onClick p \<noteq> None)
      in [(''variants'',
             if isStaggerChild' then AUndefined
             else if animate' \<noteq> False then ARef ''fadeInUp'' else AUndefined),
          (''initial'',
             if animate' \<noteq> False \<and> \<not> isStaggerChild' then AStr ''initial'' else AUndefined),
          (''animate'',
             if animate' \<noteq> False \<and> \<not> isStaggerChild' then AStr ''animate'' else AUndefined),
          (''whileHover'',
             if hover' \<or> isInteractive then ARef ''hoverLift.hover'' else AUndefined),
          (''transition'',
             case animationDelay p of
               Some d \<Rightarrow> if d \<noteq> 0 then AObj [(''delay'', d)] else AUndefined
             | None \<Rightarrow> AUndefined)])"

definition Card :: "(string \<Rightarrow> string option) \<Rightarrow> card_props \<Rightarrow> vnode" where
  "Card styles p =
     (let other = restProps [''children'', ''className'', ''elevation'', ''padding'', ''hover'',
                    ''onClick'', ''animate'', ''animationDelay'', ''isStaggerChild''] p
      in case onClick p of
           Some handler \<Rightarrow>
             Element (Motion ''button'')
               ([(''className'', AStr (cardClasses styles p)),
                 (''onClick'', AHandler handler),
                 (''type'', AStr ''button'')]
                @ cardMotionProps p @ other)
               (children p)
         | None \<Rightarrow>
             Element (Motion ''div'')
               ([(''className'', AStr (cardClasses styles p))] @ cardMotionProps p @ other)
               (children p))"

subsection \<open>Animation presets and reduced motion\<close>

text \<open>
  What the code reads from the hosting environment: whether \<open>window\<close> exists, whether
  the media query \<open>(prefers-reduced-motion: reduce)\<close> matches, and
  \<open>window.innerWidth\<close>. Durations are in seconds.
\<close>

record environment =
  windowDefined :: bool
  prefersReducedMotion :: bool
  innerWidth :: int

record transition =
  duration :: real
  ease :: "real list"

definition transitions_fast :: transition where
  "transitions_fast = \<lparr>duration = 0.15, ease = [0.4, 0, 0.2, 1]\<rparr>"

definition transitions_base :: transition where
  "transitions_base = \<lparr>duration = 0.3, ease = [0.4, 0, 0.2, 1]\<rparr>"

definition transitions_slow :: transition where
  "transitions_slow = \<lparr>duration = 0.6, ease = [0.4, 0, 0.2, 1]\<rparr>"

definition shouldReduceMotion :: "environment \<Rightarrow> bool" where
  "shouldReduceMotion env = (if \<not> windowDefined env then False else prefersReducedMotion env)"

definition getTransition :: "environment \<Rightarrow> transition \<Rightarrow> transition" where
  "getTransition env t = (if shouldReduceMotion env then t\<lparr>duration := 0.01\<rparr> else t)"

text \<open>
  A variant target holds animated values and, possibly, a transition; a \<open>Variants\<close>
  object holds the targets \<open>initial\<close>, \<open>animate\<close> and \<open>exit\<close>.
\<close>

datatype anim_value = Num real | Str string

record target =
  animated :: "(string \<times> anim_value) list"
  transition :: "transition option"

record variants =
  initial :: "target option"
  animate :: "target option"
  exit :: "target option"

text \<open>
  The modal presets are constants of the animations module: their initialisers run once,
  when the module is evaluated. The argument is the environment at that moment.
\<close>

definition modalBackdrop :: "environment \<Rightarrow> variants" where
  "modalBackdrop env =
     \<lparr>initial = Some \<lparr>animated = [(''opacity'', Num 0)], transition = None\<rparr>,
      animate = Some \<lparr>animated = [(''opacity'', Num 1)],
                       transition = Some (getTransition env transitions_base)\<rparr>,
      exit = Some \<lparr>animated = [(''opacity'', Num 0)],
                    transition = Some (getTransition env transitions_base)\<rparr>\<rparr>"

definition modalEnter :: "environment \<Rightarrow> variants" where
  "modalEnter env =
     \<lparr>initial = Some \<lparr>animated = [(''scale'', Num 0.9), (''opacity'', Num 0), (''y'', Num 20)],
                       transition = None\<rparr>,
      animate = Some \<lparr>animated = [(''scale'', Num 1), (''opacity'', Num 1), (''y'', Num 0)],
                       transition = Some (getTransition env transitions_base)\<rparr>,
      exit = Some \<lparr>animated = [(''scale'', Num 0.9), (''opacity'', Num 0), (''y'', Num (- 10))],
                    transition = Some (getTransition env transitions_fast)\<rparr>\<rparr>"

definition modalMobileSlide :: "environment \<Rightarrow> variants" where
  "modalMobileSlide env =
     \<lparr>initial = Some \<lparr>animated = [(''opacity'', Num 0), (''y'', Str ''100%'')],
                       transition = None\<rparr>,
      animate = Some \<lparr>animated = [(''opacity'', Num 1), (''y'', Num 0)],
                       transition = Some (getTransition env
                                            \<lparr>duration = 0.4, ease = [0.32, 0.72, 0, 1]\<rparr>)\<rparr>,
      exit = Some \<lparr>animated = [(''opacity'', Num 0), (''y'', Str ''100%'')],
                    transition = Some (getTransition env transitions_base)\<rparr>\<rparr>"

text \<open>
  The variants a Modal render hands to its backdrop and to its dialog. The module was
  evaluated in \<open>moduleEnv\<close>; the render runs in \<open>renderEnv\<close>, where it reads the
  window width to choose between the slide and the enter preset.
\<close>

definition modalVariants :: "environment \<Rightarrow> environment \<Rightarrow> bool option \<Rightarrow> variants \<times> variants" where
  "modalVariants moduleEnv renderEnv mobileSlide =
     (let isMobile = (windowDefined renderEnv \<and> innerWidth renderEnv \<le> 640);
          modalVariant = (if withDefault True mobileSlide \<noteq> False \<and> isMobile
                          then modalMobileSlide moduleEnv else modalEnter moduleEnv)
      in (modalBackdrop moduleEnv, modalVariant))"

definition transitionsOf :: "variants \<Rightarrow> transition list" where
  "transitionsOf v = [t. Some tg \<leftarrow> [initial v, animate v, exit v], Some t \<leftarrow> [transition tg]]"

section \<open>Properties\<close>

subsection \<open>Scroll lock\<close>

lemma lock_idle:
  "scrollLockCounter s \<noteq> 0 \<Longrightarrow>
     lockBodyScroll s = s\<lparr>scrollLockCounter := scrollLockCounter s + 1\<rparr>"
  by (simp add: lockBodyScroll_def)

lemma lock_first:
  "scrollLockCounter s = 0 \<Longrightarrow>
     lockBodyScroll s =
       s\<lparr>originalBodyStyle := Some (bodyOverflow s), bodyOverflow := ''hidden'',
         scrollLockCounter := 1\<rparr>"
  by (simp add: lockBodyScroll_def)

lemma unlock_idle:
  "scrollLockCounter s \<noteq> 1 \<Longrightarrow>
     unlockBodyScroll s = s\<lparr>scrollLockCounter := scrollLockCounter s - 1\<rparr>"
  by (simp add: unlockBodyScroll_def)

lemma unlock_last:
  "scrollLockCounter s = 1 \<Longrightarrow> originalBodyStyle s = Some v \<Longrightarrow>
     unlockBodyScroll s =
       s\<lparr>scrollLockCounter := 0, bodyOverflow := v, originalBodyStyle := None\<rparr>"
  by (simp add: unlockBodyScroll_def)

lemma lock_consistent_initial: "lock_consistent v0 (initial_page v0)"
  by (simp add: lock_consistent_def initial_page_def initial_scroll_lock_def)

lemma lock_consistent_cleanup:
  assumes "lock_consistent v0 p"
  shows "lock_consistent v0 (runCleanup i p)"
proof (cases "i \<in> lockHolders p")
  case False
  with assms show ?thesis by (simp add: runCleanup_def)
next
  case True
  from assms have fin: "finite (lockHolders p)"
    and cnt: "scrollLockCounter (scrollLock p) = int (card (lockHolders p))"
    and orig: "originalBodyStyle (scrollLock p) = Some v0"
    using True by (auto simp: lock_consistent_def)
  from fin True have pos: "card (lockHolders p) > 0"
    by (auto simp: card_gt_0_iff)
  show ?thesis
  proof (cases "card (lockHolders p) = 1")
    case one: True
    with True fin have empty: "lockHolders p - {i} = {}"
      by (metis card_1_singletonE Diff_cancel singletonD)
    from one cnt orig have
      "unlockBodyScroll (scrollLock p) =
         (scrollLock p)\<lparr>scrollLockCounter := 0, bodyOverflow := v0, originalBodyStyle := None\<rparr>"
      by (simp add: unlock_last)
    with True empty fin one show ?thesis
      by (simp add: runCleanup_def lock_consistent_def)
  next
    case more: False
    with pos have two: "card (lockHolders p) \<ge> 2" by simp
    from True have "card (lockHolders p - {i}) = card (lockHolders p) - 1"
      by (simp add: card_Diff_singleton)
    with two have "card (lockHolders p - {i}) \<noteq> 0" by simp
    then have rest: "lockHolders p - {i} \<noteq> {}"
      by (metis card.empty)
    from more cnt have
      "unlockBodyScroll (scrollLock p) =
         (scrollLock p)\<lparr>scrollLockCounter := scrollLockCounter (scrollLock p) - 1\<rparr>"
      by (simp add: unlock_idle)
    with assms True fin rest pos show ?thesis
      by (auto simp: runCleanup_def lock_consistent_def card_Diff_singleton of_nat_diff)
  qed
qed

lemma lock_consistent_step:
  assumes "lock_consistent v0 p"
  shows "lock_consistent v0 (modal_effect e p)"
proof (cases e)
  case (Unmount i)
  with assms show ?thesis by (simp add: lock_consistent_cleanup)
next
  case (EffectRun i opened)
  let ?p1 = "runCleanup i p"
  have c1: "lock_consistent v0 ?p1"
    using assms by (rule lock_consistent_cleanup)
  have notin: "i \<notin> lockHolders ?p1"
    by (simp add: runCleanup_def)
  show ?thesis
  proof (cases opened)
    case False
    with EffectRun c1 show ?thesis by (simp add: Let_def)
  next
    case True
    show ?thesis
    proof (cases "lockHolders ?p1 = {}")
      case empty: True
      with c1 have "scrollLockCounter (scrollLock ?p1) = 0"
        and "bodyOverflow (scrollLock ?p1) = v0"
        by (simp_all add: lock_consistent_def)
      with EffectRun True empty show ?thesis
        by (simp add: Let_def lock_consistent_def lock_first)
    next
      case nonempty: False
      with c1 have "scrollLockCounter (scrollLock ?p1) \<noteq> 0"
        by (auto simp: lock_consistent_def)
      with EffectRun True c1 notin nonempty show ?thesis
        by (simp add: Let_def lock_consistent_def lock_idle)
    qed
  qed
qed

lemma lock_consistent_run:
  "lock_consistent v0 p \<Longrightarrow> lock_consistent v0 (run_events es p)"
  by (induction es arbitrary: p) (simp_all add: lock_consistent_step)

text \<open>
  Claim C1. Start from a page whose body overflow is \<open>v0\<close> and run any sequence of
  Modal effect runs and unmounts (in particular: open \<open>N\<close> modals, then close them in any
  order). Then the shared counter is the number of open modals, the body overflow is
  \<open>hidden\<close> exactly while the counter is positive and is the saved value \<open>v0\<close>, unchanged,
  once the counter is back at zero. (When \<open>v0\<close> itself is \<open>hidden\<close> the restored value
  is that same string, so the equivalence with the literal \<open>hidden\<close> is stated for the
  other values of \<open>v0\<close>.) A call of \<open>lockBodyScroll\<close> leaves the body style alone unless
  the counter goes from 0 to 1, where it saves the current value and writes \<open>hidden\<close>; a
  call of \<open>unlockBodyScroll\<close> leaves it alone unless the counter goes from 1 to 0, where
  it writes the saved value back.
\<close>

theorem scroll_lock_counter_discipline:
  "(let p = run_events es (initial_page v0); s = scrollLock p in
      scrollLockCounter s = int (card (lockHolders p)) \<and>
      (0 < scrollLockCounter s \<longleftrightarrow> lockHolders p \<noteq> {}) \<and>
      bodyOverflow s = (if 0 < scrollLockCounter s then ''hidden'' else v0) \<and>
      (v0 \<noteq> ''hidden'' \<longrightarrow> (bodyOverflow s = ''hidden'' \<longleftrightarrow> 0 < scrollLockCounter s))) \<and>
   (scrollLockCounter a \<noteq> 0 \<longrightarrow> bodyOverflow (lockBodyScroll a) = bodyOverflow a) \<and>
   (scrollLockCounter b \<noteq> 1 \<longrightarrow> bodyOverflow (unlockBodyScroll b) = bodyOverflow b) \<and>
   (scrollLockCounter c = 0 \<longrightarrow>
      bodyOverflow (lockBodyScroll c) = ''hidden'' \<and>
      originalBodyStyle (lockBodyScroll c) = Some (bodyOverflow c)) \<and>
   (scrollLockCounter d = 1 \<and> originalBodyStyle d = Some v \<longrightarrow>
      bodyOverflow (unlockBodyScroll d) = v \<and> scrollLockCounter (unlockBodyScroll d) = 0)"
proof -
  let ?p = "run_events es (initial_page v0)"
  have inv: "lock_consistent v0 ?p"
    by (rule lock_consistent_run) (rule lock_consistent_initial)
  then have fin: "finite (lockHolders ?p)"
    and cnt: "scrollLockCounter (scrollLock ?p) = int (card (lockHolders ?p))"
    and ovf: "bodyOverflow (scrollLock ?p) = (if lockHolders ?p = {} then v0 else ''hidden'')"
    by (simp_all add: lock_consistent_def)
  from fin cnt have pos: "0 < scrollLockCounter (scrollLock ?p) \<longleftrightarrow> lockHolders ?p \<noteq> {}"
    by (simp add: card_gt_0_iff)
  have run: "scrollLockCounter (scrollLock ?p) = int (card (lockHolders ?p)) \<and>
      (0 < scrollLockCounter (scrollLock ?p) \<longleftrightarrow> lockHolders ?p \<noteq> {}) \<and>
      bodyOverflow (scrollLock ?p) =
        (if 0 < scrollLockCounter (scrollLock ?p) then ''hidden'' else v0) \<and>
      (v0 \<noteq> ''hidden'' \<longrightarrow>
        (bodyOverflow (scrollLock ?p) = ''hidden'' \<longleftrightarrow> 0 < scrollLockCounter (scrollLock ?p)))"
    using cnt pos ovf by auto
  have la: "scrollLockCounter a \<noteq> 0 \<longrightarrow> bodyOverflow (lockBodyScroll a) = bodyOverflow a"
    by (simp add: lock_idle)
  have ub: "scrollLockCounter b \<noteq> 1 \<longrightarrow> bodyOverflow (unlockBodyScroll b) = bodyOverflow b"
    by (simp add: unlock_idle)
  have lc: "scrollLockCounter c = 0 \<longrightarrow>
      bodyOverflow (lockBodyScroll c) = ''hidden'' \<and>
      originalBodyStyle (lockBodyScroll c) = Some (bodyOverflow c)"
    by (simp add: lock_first)
  have ud: "scrollLockCounter d = 1 \<and> originalBodyStyle d = Some v \<longrightarrow>
      bodyOverflow (unlockBodyScroll d) = v \<and> scrollLockCounter (unlockBodyScroll d) = 0"
    by (simp add: unlock_last)
  from run la ub lc ud show ?thesis
    unfolding Let_def by blast
qed

theorem scroll_lock_counter_discipline_witness:
  "bodyOverflow (scrollLock (run_events
      [EffectRun 1 True, EffectRun 2 True, EffectRun 3 True, Unmount 2, Unmount 3]
      (initial_page ''scroll''))) = ''hidden'' \<and>
   scrollLockCounter (scrollLock (run_events
      [EffectRun 1 True, EffectRun 2 True, EffectRun 3 True, Unmount 2, Unmount 3]
      (initial_page ''scroll''))) = 1 \<and>
   bodyOverflow (scrollLock (run_events
      [EffectRun 1 True, EffectRun 2 True, EffectRun 3 True, Unmount 2, Unmount 3, Unmount 1]
      (initial_page ''scroll''))) = ''scroll'' \<and>
   scrollLockCounter (scrollLock (run_events
      [EffectRun 1 True, EffectRun 2 True, EffectRun 3 True, Unmount 2, Unmount 3, Unmount 1]
      (initial_page ''scroll''))) = 0 \<and>
   bodyOverflow (lockBodyScroll
      \<lparr>scrollLockCounter = 2, originalBodyStyle = Some ''scroll'', bodyOverflow = ''hidden''\<rparr>)
     = ''hidden'' \<and>
   bodyOverflow (unlockBodyScroll
      \<lparr>scrollLockCounter = 2, originalBodyStyle = Some ''scroll'', bodyOverflow = ''hidden''\<rparr>)
     = ''hidden'' \<and>
   originalBodyStyle (lockBodyScroll
      \<lparr>scrollLockCounter = 0, originalBodyStyle = None, bodyOverflow = ''scroll''\<rparr>)
     = Some ''scroll'' \<and>
   bodyOverflow (unlockBodyScroll
      \<lparr>scrollLockCounter = 1, originalBodyStyle = Some ''scroll'', bodyOverflow = ''hidden''\<rparr>)
     = ''scroll''"
  using
    scroll_lock_counter_discipline [of
      "[EffectRun 1 True, EffectRun 2 True, EffectRun 3 True, Unmount 2, Unmount 3]" "''scroll''"
      "\<lparr>scrollLockCounter = 2, originalBodyStyle = Some ''scroll'', bodyOverflow = ''hidden''\<rparr>"
      "\<lparr>scrollLockCounter = 2, originalBodyStyle = Some ''scroll'', bodyOverflow = ''hidden''\<rparr>"
      "\<lparr>scrollLockCounter = 0, originalBodyStyle = None, bodyOverflow = ''scroll''\<rparr>"
      "\<lparr>scrollLockCounter = 1, originalBodyStyle = Some ''scroll'', bodyOverflow = ''hidden''\<rparr>"
      "''scroll''"]
    scroll_lock_counter_discipline [of
      "[EffectRun 1 True, EffectRun 2 True, EffectRun 3 True, Unmount 2, Unmount 3, Unmount 1]"
      "''scroll''"
      "\<lparr>scrollLockCounter = 2, originalBodyStyle = Some ''scroll'', bodyOverflow = ''hidden''\<rparr>"
      "\<lparr>scrollLockCounter = 2, originalBodyStyle = Some ''scroll'', bodyOverflow = ''hidden''\<rparr>"
      "\<lparr>scrollLockCounter = 0, originalBodyStyle = None, bodyOverflow = ''scroll''\<rparr>"
      "\<lparr>scrollLockCounter = 1, originalBodyStyle = Some ''scroll'', bodyOverflow = ''hidden''\<rparr>"
      "''scroll''"]
  by (simp add: initial_page_def initial_scroll_lock_def runCleanup_def
        lockBodyScroll_def unlockBodyScroll_def)

subsection \<open>Modal: focus trap, initial focus, focus restoration, dismissal\<close>

text \<open>
  With the container attached to \<open>modalRef\<close>, a Tab keydown on an open modal recomputes
  the list and wraps at both ends.
\<close>

lemma handleKeyDown_tab_attached:
  assumes "isOpen props" and "modalRef st = Some c" and "key event = ''Tab''"
  shows "focusableElements (handleKeyDown props ae event st) = getFocusableElements c \<and>
     (getFocusableElements c = [] \<longrightarrow>
        effects (handleKeyDown props ae event st) = effects st @ [PreventDefault]) \<and>
     (getFocusableElements c \<noteq> [] \<and> \<not> shiftKey event \<and>
      ae = Some (last (getFocusableElements c)) \<longrightarrow>
        effects (handleKeyDown props ae event st) =
          effects st @ [PreventDefault, Focus (hd (getFocusableElements c))]) \<and>
     (getFocusableElements c \<noteq> [] \<and> shiftKey event \<and>
      ae = Some (hd (getFocusableElements c)) \<longrightarrow>
        effects (handleKeyDown props ae event st) =
          effects st @ [PreventDefault, Focus (last (getFocusableElements c))])"
  using assms
  by (cases "getFocusableElements c")
     (auto simp: handleKeyDown_def updateFocusableElements_def Let_def perform_def
        focusIfPresent_def)

text \<open>
  Claim C2, evaluated where it fails. A Modal that was given a \<open>ref\<close> never attaches its
  container to \<open>modalRef\<close>, so \<open>updateFocusableElements\<close> returns at once and the list
  stays empty. The dialog below has two buttons (elements 2 and 3); the modal is open and
  focus is on the last button. On Tab the handler prevents the default and calls no
  \<open>focus()\<close>: the only effect of the whole run is \<open>PreventDefault\<close>, and the list the
  handler keeps is empty although the dialog has two focusable descendants. The same run
  without a forwarded ref focuses button 2 on open and wraps to it on Tab.
\<close>

theorem handleKeyDown_forwarded_ref_no_wrap:
  "getFocusableElements
     (Node 1 ''div'' True [(''role'', ''dialog''), (''tabindex'', ''-1'')] ''block'' ''visible''
        [Node 2 ''button'' True [] ''inline-block'' ''visible'' [],
         Node 3 ''button'' True [] ''inline-block'' ''visible'' []]) = [2, 3] \<and>
   effects (handleKeyDown
      \<lparr>isOpen = True, closeOnBackdropClick = None, closeOnEscape = None,
       initialFocusRef = None, finalFocusRef = None, forwardedRef = True\<rparr>
      (Some 3) \<lparr>key = ''Tab'', shiftKey = False\<rparr>
      (openModal
         \<lparr>isOpen = True, closeOnBackdropClick = None, closeOnEscape = None,
          initialFocusRef = None, finalFocusRef = None, forwardedRef = True\<rparr>
         (Node 1 ''div'' True [(''role'', ''dialog''), (''tabindex'', ''-1'')] ''block'' ''visible''
            [Node 2 ''button'' True [] ''inline-block'' ''visible'' [],
             Node 3 ''button'' True [] ''inline-block'' ''visible'' []])
         0 (Some 9))) = [PreventDefault] \<and>
   focusableElements (handleKeyDown
      \<lparr>isOpen = True, closeOnBackdropClick = None, closeOnEscape = None,
       initialFocusRef = None, finalFocusRef = None, forwardedRef = True\<rparr>
      (Some 3) \<lparr>key = ''Tab'', shiftKey = False\<rparr>
      (openModal
         \<lparr>isOpen = True, closeOnBackdropClick = None, closeOnEscape = None,
          initialFocusRef = None, finalFocusRef = None, forwardedRef = True\<rparr>
         (Node 1 ''div'' True [(''role'', ''dialog''), (''tabindex'', ''-1'')] ''block'' ''visible''
            [Node 2 ''button'' True [] ''inline-block'' ''visible'' [],
             Node 3 ''button'' True [] ''inline-block'' ''visible'' []])
         0 (Some 9))) = [] \<and>
   effects (handleKeyDown
      \<lparr>isOpen = True, closeOnBackdropClick = None, closeOnEscape = None,
       initialFocusRef = None, finalFocusRef = None, forwardedRef = False\<rparr>
      (Some 3) \<lparr>key = ''Tab'', shiftKey = False\<rparr>
      (openModal
         \<lparr>isOpen = True, closeOnBackdropClick = None, closeOnEscape = None,
          initialFocusRef = None, finalFocusRef = None, forwardedRef = False\<rparr>
         (Node 1 ''div'' True [(''role'', ''dialog''), (''tabindex'', ''-1'')] ''block'' ''visible''
            [Node 2 ''button'' True [] ''inline-block'' ''visible'' [],
             Node 3 ''button'' True [] ''inline-block'' ''visible'' []])
         0 (Some 9))) = [Focus 2, PreventDefault, Focus 2]"
  by (simp add: handleKeyDown_def openModal_def focusTimeout_def effectOpen_def mountModal_def
        initial_modal_state_def updateFocusableElements_def Let_def perform_def
        focusIfPresent_def withDefault_def getFocusableElements_def querySelectorAll_def
        focusableSelectors_def hasAttribute_def getAttribute_def)

text \<open>
  Without a forwarded ref, opening a modal calls \<open>focus()\<close> exactly once, on the
  initial-focus target if its reference holds an element, else on the first focusable
  descendant, else on the container.
\<close>

lemma openModal_focus_attached:
  "\<not> forwardedRef props \<Longrightarrow>
     effects (openModal props dialog backdrop ae) =
       [Focus (case initialFocusRef props of
                 Some (Some t) \<Rightarrow> t
               | _ \<Rightarrow> (case getFocusableElements dialog of
                         x # _ \<Rightarrow> x
                       | [] \<Rightarrow> node_id dialog))]"
  by (auto simp: openModal_def focusTimeout_def effectOpen_def mountModal_def
        initial_modal_state_def updateFocusableElements_def Let_def perform_def
        focusIfPresent_def split: option.splits list.splits)

text \<open>
  Claim C3, evaluated where it fails. A Modal that was given a \<open>ref\<close> and no
  initial-focus target is opened, once around one button (element 2) and once around a
  paragraph only. \<open>modalRef.current\<close> is null when the focus timeout fires, so the list
  is not computed and the fallback \<open>modalRef.current?.focus()\<close> does nothing: no
  \<open>focus()\<close> call is made at all, neither on the button nor on the container.
\<close>

theorem openModal_forwarded_ref_no_focus:
  "effects (openModal
      \<lparr>isOpen = True, closeOnBackdropClick = None, closeOnEscape = None,
       initialFocusRef = None, finalFocusRef = None, forwardedRef = True\<rparr>
      (Node 1 ''div'' True [(''role'', ''dialog''), (''tabindex'', ''-1'')] ''block'' ''visible''
         [Node 2 ''button'' True [] ''inline-block'' ''visible'' []])
      0 (Some 9)) = [] \<and>
   effects (openModal
      \<lparr>isOpen = True, closeOnBackdropClick = None, closeOnEscape = None,
       initialFocusRef = None, finalFocusRef = None, forwardedRef = True\<rparr>
      (Node 1 ''div'' True [(''role'', ''dialog''), (''tabindex'', ''-1'')] ''block'' ''visible''
         [Node 4 ''p'' True [] ''block'' ''visible'' []])
      0 (Some 9)) = [] \<and>
   modalRef (openModal
      \<lparr>isOpen = True, closeOnBackdropClick = None, closeOnEscape = None,
       initialFocusRef = None, finalFocusRef = None, forwardedRef = True\<rparr>
      (Node 1 ''div'' True [(''role'', ''dialog''), (''tabindex'', ''-1'')] ''block'' ''visible''
         [Node 4 ''p'' True [] ''block'' ''visible'' []])
      0 (Some 9)) = None \<and>
   effects (openModal
      \<lparr>isOpen = True, closeOnBackdropClick = None, closeOnEscape = None,
       initialFocusRef = None, finalFocusRef = None, forwardedRef = False\<rparr>
      (Node 1 ''div'' True [(''role'', ''dialog''), (''tabindex'', ''-1'')] ''block'' ''visible''
         [Node 4 ''p'' True [] ''block'' ''visible'' []])
      0 (Some 9)) = [Focus 1]"
  by (simp add: openModal_def focusTimeout_def effectOpen_def mountModal_def
        initial_modal_state_def updateFocusableElements_def Let_def perform_def
        focusIfPresent_def getFocusableElements_def querySelectorAll_def
        focusableSelectors_def hasAttribute_def getAttribute_def)

text \<open>
  Claim C4 as stated, refuted. With no final-focus target, the claim has the cleanup
  call \<open>focus()\<close> on the captured element exactly when that element is still attached.
  Element 7 is captured. In the first document it is an \<open>HTMLElement\<close> that has been
  detached, and the cleanup calls \<open>focus()\<close> on it; in the second it is attached but is
  not an \<open>HTMLElement\<close> (a focused SVG link), and the cleanup calls nothing.
\<close>

theorem effectCleanup_attachment_counterexample:
  "\<not> (Focus 7 \<in> set (effects (effectCleanup
            \<lparr>htmlElements = {7}, connectedElements = {}\<rparr>
            \<lparr>isOpen = False, closeOnBackdropClick = None, closeOnEscape = None,
             initialFocusRef = None, finalFocusRef = None, forwardedRef = False\<rparr>
            (initial_modal_state\<lparr>previousActiveElement := Some 7\<rparr>)))
        \<longleftrightarrow> 7 \<in> connectedElements \<lparr>htmlElements = {7}, connectedElements = {}\<rparr>) \<and>
   \<not> (Focus 7 \<in> set (effects (effectCleanup
            \<lparr>htmlElements = {}, connectedElements = {7}\<rparr>
            \<lparr>isOpen = False, closeOnBackdropClick = None, closeOnEscape = None,
             initialFocusRef = None, finalFocusRef = None, forwardedRef = False\<rparr>
            (initial_modal_state\<lparr>previousActiveElement := Some 7\<rparr>)))
        \<longleftrightarrow> 7 \<in> connectedElements \<lparr>htmlElements = {}, connectedElements = {7}\<rparr>)"
  by (simp add: effectCleanup_def initial_modal_state_def perform_def Let_def)

text \<open>
  Claim C4, amended. The cleanup calls \<open>focus()\<close> on the final-focus target when that
  reference is given and holds an element; otherwise on the element captured when the
  modal opened (the document's active element at that moment) if and only if that element
  is an instance of \<open>HTMLElement\<close>; otherwise on nothing. Whether the captured element is
  still attached to the document plays no part.
\<close>

theorem effectCleanup_focus_restore:
  "effects (effectCleanup doc props st) =
     effects st @
       (case finalFocusRef props of
          Some (Some target) \<Rightarrow> [Focus target]
        | _ \<Rightarrow> (case previousActiveElement st of
                  Some previous \<Rightarrow> if previous \<in> htmlElements doc then [Focus previous] else []
                | None \<Rightarrow> [])) \<and>
   effectCleanup (doc\<lparr>connectedElements := attached\<rparr>) props st = effectCleanup doc props st \<and>
   previousActiveElement (openModal props dialog backdrop ae) = ae"
proof -
  have restore: "effects (effectCleanup doc props st) =
     effects st @
       (case finalFocusRef props of
          Some (Some target) \<Rightarrow> [Focus target]
        | _ \<Rightarrow> (case previousActiveElement st of
                  Some previous \<Rightarrow> if previous \<in> htmlElements doc then [Focus previous] else []
                | None \<Rightarrow> []))"
    by (simp add: effectCleanup_def perform_def Let_def split: option.splits)
  have attach: "effectCleanup (doc\<lparr>connectedElements := attached\<rparr>) props st =
      effectCleanup doc props st"
    by (simp add: effectCleanup_def Let_def split: option.splits)
  have captured: "previousActiveElement (openModal props dialog backdrop ae) = ae"
    by (simp add: openModal_def focusTimeout_def effectOpen_def mountModal_def
          updateFocusableElements_def Let_def perform_def focusIfPresent_def
          split: option.splits)
  from restore attach captured show ?thesis by blast
qed

theorem effectCleanup_focus_restore_witness:
  "effects (effectCleanup \<lparr>htmlElements = {7, 8}, connectedElements = {8}\<rparr>
      \<lparr>isOpen = False, closeOnBackdropClick = None, closeOnEscape = None,
       initialFocusRef = None, finalFocusRef = Some None, forwardedRef = False\<rparr>
      (initial_modal_state\<lparr>previousActiveElement := Some 7\<rparr>)) = [Focus 7] \<and>
   effects (effectCleanup \<lparr>htmlElements = {7, 8}, connectedElements = {8}\<rparr>
      \<lparr>isOpen = False, closeOnBackdropClick = None, closeOnEscape = None,
       initialFocusRef = None, finalFocusRef = Some (Some 8), forwardedRef = False\<rparr>
      (initial_modal_state\<lparr>previousActiveElement := Some 7\<rparr>)) = [Focus 8]"
  using
    effectCleanup_focus_restore [of "\<lparr>htmlElements = {7, 8}, connectedElements = {8}\<rparr>"
      "\<lparr>isOpen = False, closeOnBackdropClick = None, closeOnEscape = None,
        initialFocusRef = None, finalFocusRef = Some None, forwardedRef = False\<rparr>"
      "initial_modal_state\<lparr>previousActiveElement := Some 7\<rparr>"]
    effectCleanup_focus_restore [of "\<lparr>htmlElements = {7, 8}, connectedElements = {8}\<rparr>"
      "\<lparr>isOpen = False, closeOnBackdropClick = None, closeOnEscape = None,
        initialFocusRef = None, finalFocusRef = Some (Some 8), forwardedRef = False\<rparr>"
      "initial_modal_state\<lparr>previousActiveElement := Some 7\<rparr>"]
  by (simp add: initial_modal_state_def)

text \<open>
  Claim C5. On an open modal an Escape keydown prevents the default and then calls
  \<open>onClose\<close> if escape-dismiss is enabled, and does nothing otherwise. A click calls
  \<open>onClose\<close> if and only if backdrop-dismiss is enabled and the click target is the
  backdrop element itself. Each flag is enabled when the property is left undefined, and
  neither handler reads the other handler's flag.
\<close>

theorem dismiss_flags:
  "(isOpen props \<and> key event = ''Escape'' \<longrightarrow>
      effects (handleKeyDown props ae event st) =
        effects st @ (if withDefault True (closeOnEscape props)
                      then [PreventDefault, OnClose] else [])) \<and>
   effects (handleBackdropClick props target st) =
     effects st @ (if withDefault True (closeOnBackdropClick props) \<and> backdropRef st = Some target
                   then [OnClose] else []) \<and>
   (closeOnEscape props = None \<longrightarrow> withDefault True (closeOnEscape props)) \<and>
   (closeOnBackdropClick props = None \<longrightarrow> withDefault True (closeOnBackdropClick props)) \<and>
   handleKeyDown (props\<lparr>closeOnBackdropClick := x\<rparr>) ae event st =
     handleKeyDown props ae event st \<and>
   handleBackdropClick (props\<lparr>closeOnEscape := y\<rparr>) target st =
     handleBackdropClick props target st"
proof -
  have esc: "isOpen props \<and> key event = ''Escape'' \<longrightarrow>
      effects (handleKeyDown props ae event st) =
        effects st @ (if withDefault True (closeOnEscape props)
                      then [PreventDefault, OnClose] else [])"
    by (simp add: handleKeyDown_def perform_def)
  have click: "effects (handleBackdropClick props target st) =
     effects st @ (if withDefault True (closeOnBackdropClick props) \<and> backdropRef st = Some target
                   then [OnClose] else [])"
    by (auto simp: handleBackdropClick_def perform_def)
  have d1: "closeOnEscape props = None \<longrightarrow> withDefault True (closeOnEscape props)"
    by (simp add: withDefault_def)
  have d2: "closeOnBackdropClick props = None \<longrightarrow> withDefault True (closeOnBackdropClick props)"
    by (simp add: withDefault_def)
  have i1: "handleKeyDown (props\<lparr>closeOnBackdropClick := x\<rparr>) ae event st =
     handleKeyDown props ae event st"
    by (simp add: handleKeyDown_def)
  have i2: "handleBackdropClick (props\<lparr>closeOnEscape := y\<rparr>) target st =
     handleBackdropClick props target st"
    by (simp add: handleBackdropClick_def)
  from esc click d1 d2 i1 i2 show ?thesis by blast
qed

theorem dismiss_flags_witness:
  "effects (handleKeyDown
      \<lparr>isOpen = True, closeOnBackdropClick = Some False, closeOnEscape = None,
       initialFocusRef = None, finalFocusRef = None, forwardedRef = False\<rparr>
      (Some 2) \<lparr>key = ''Escape'', shiftKey = False\<rparr>
      (initial_modal_state\<lparr>backdropRef := Some 5\<rparr>))
     = [PreventDefault, OnClose] \<and>
   effects (handleBackdropClick
      \<lparr>isOpen = True, closeOnBackdropClick = Some False, closeOnEscape = None,
       initialFocusRef = None, finalFocusRef = None, forwardedRef = False\<rparr>
      5 (initial_modal_state\<lparr>backdropRef := Some 5\<rparr>)) = []"
  using dismiss_flags [where
      props = "\<lparr>isOpen = True, closeOnBackdropClick = Some False, closeOnEscape = None,
        initialFocusRef = None, finalFocusRef = None, forwardedRef = False\<rparr>"
      and event = "\<lparr>key = ''Escape'', shiftKey = False\<rparr>" and ae = "Some 2"
      and target = 5 and st = "initial_modal_state\<lparr>backdropRef := Some 5\<rparr>"]
  by (simp add: withDefault_def initial_modal_state_def)

subsection \<open>Alert\<close>

text \<open>
  The guard of \<open>handleDismiss\<close> holds for a handler that closed over \<open>isExiting\<close>
  true, but no button on the page carries such a handler.
\<close>

lemma handleDismiss_guard:
  "\<not> dismissible \<or> exiting \<Longrightarrow> handleDismiss dismissible exiting s = s"
  by (auto simp: handleDismiss_def)

lemma mountedHandlerExiting_stale: "mountedHandlerExiting s \<noteq> Some True"
  by (simp add: mountedHandlerExiting_def alertRender_def)

text \<open>No event moves the Alert back: visible, exiting, removed is the only order.\<close>

lemma alert_phase_monotone:
  "phase_rank (phase s) \<le> phase_rank (phase (alert_step e s))"
  by (cases e)
     (auto simp: phase_def handleDismiss_def alertHandleKeyDown_def dismissTimeout_def
        mountedHandlerExiting_def alertRender_def split: if_splits)

text \<open>
  Claim C6, evaluated where it fails. A dismissible Alert gets two clicks on its dismiss
  button before the first timeout has run. After the first click the Alert is exiting and
  one callback is scheduled. The second click runs the handler of the button still on the
  page, which closed over \<open>isExiting\<close> false: it is no no-op, it schedules a second
  callback. The first callback removes the Alert, which renders nothing from then on, and
  calls \<open>onDismiss\<close>; the second callback calls \<open>onDismiss\<close> again.
\<close>

theorem alert_second_dismiss_runs_twice:
  "phase (run_alert [RequestDismiss True] initial_alert_state) = Exiting \<and>
   pendingTimeouts (run_alert [RequestDismiss True] initial_alert_state) = 1 \<and>
   alert_step (RequestDismiss True) (run_alert [RequestDismiss True] initial_alert_state)
     \<noteq> run_alert [RequestDismiss True] initial_alert_state \<and>
   pendingTimeouts (run_alert [RequestDismiss True, RequestDismiss True] initial_alert_state) = 2 \<and>
   alertRender (run_alert [RequestDismiss True, RequestDismiss True, TimeoutFires]
      initial_alert_state) = Null \<and>
   onDismissCalls (run_alert [RequestDismiss True, RequestDismiss True, TimeoutFires]
      initial_alert_state) = 1 \<and>
   onDismissCalls (run_alert [RequestDismiss True, RequestDismiss True, TimeoutFires, TimeoutFires]
      initial_alert_state) = 2"
  by (simp add: initial_alert_state_def handleDismiss_def dismissTimeout_def phase_def
        mountedHandlerExiting_def alertRender_def)

subsection \<open>Rendered properties\<close>

lemma map_of_filter_key:
  "map_of (filter (\<lambda>(k, v). P k) xs) k = (if P k then map_of xs k else None)"
  by (induction xs) auto

lemma restProps_named: "k \<in> set named \<Longrightarrow> map_of (rev (restProps named p)) k = None"
  by (auto simp: restProps_def map_of_eq_None_iff)

lemma restProps_other:
  "k \<notin> set named \<Longrightarrow> map_of (rev (restProps named p)) k = map_of (rev (rest p)) k"
  by (simp add: restProps_def rev_filter map_of_filter_key)

lemma propOf_append:
  "propOf (Element t (xs @ ys) cs) k =
     (case map_of (rev ys) k of Some v \<Rightarrow> Some v | None \<Rightarrow> map_of (rev xs) k)"
  by (simp add: map_add_def split: option.splits)

lemma map_of_rev_absent: "k \<notin> set (map fst xs) \<Longrightarrow> map_of (rev xs) k = None"
  by (simp add: map_of_eq_None_iff)

subsection \<open>Sub-region components\<close>

lemma sub_region_error_iff:
  "isl (renderSubRegion ms cs context r props) \<longleftrightarrow>
     context = None \<and> r \<in> {ModalHeaderRegion, ModalBodyRegion, ModalFooterRegion}"
  by (cases r; cases "context")
     (simp_all add: renderSubRegion_def ModalHeader_def ModalBody_def ModalFooter_def)

text \<open>
  Claim C7 as stated, refuted. \<open>CardHeader\<close> is a header sub-region component of the
  library; rendered outside every Card and every Modal it throws nothing and returns its
  \<open>motion.div\<close>.
\<close>

theorem sub_region_error_counterexample:
  "renderSubRegion Some Some None CardHeaderRegion
      \<lparr>className = None, children = [Text ''Header content''], rest = [],
       showCloseButton = None\<rparr>
     = Inr (Element (Motion ''div'') [(''className'', AStr ''header'')] [Text ''Header content''])"
  by (simp add: renderSubRegion_def CardHeader_def classNames_def restProps_def
        component_props.truncate_def)

text \<open>
  Claim C7, amended. Rendering a sub-region component throws if and only if it is one of
  \<open>ModalHeader\<close>, \<open>ModalBody\<close>, \<open>ModalFooter\<close> and no Modal context is in scope;
  the error is raised during the render, with the message naming the component. The
  Card's header, body and footer require no parent and never throw.
\<close>

theorem sub_region_outside_modal:
  "(isl (renderSubRegion ms cs context r props) \<longleftrightarrow>
      context = None \<and> r \<in> {ModalHeaderRegion, ModalBodyRegion, ModalFooterRegion}) \<and>
   ModalHeader ms None props = Inl ''ModalHeader must be used within a Modal component'' \<and>
   ModalBody ms None base = Inl ''ModalBody must be used within a Modal component'' \<and>
   ModalFooter ms None base = Inl ''ModalFooter must be used within a Modal component''"
  by (simp only: sub_region_error_iff ModalHeader_def ModalBody_def ModalFooter_def
        option.case simp_thms)

theorem sub_region_outside_modal_witness:
  "isl (renderSubRegion Some Some None ModalFooterRegion
      \<lparr>className = None, children = [Text ''Footer content''], rest = [],
       showCloseButton = None\<rparr>) \<and>
   \<not> isl (renderSubRegion Some Some (Some \<lparr>onClose = 1, titleId = ''modal-title-x''\<rparr>)
      ModalFooterRegion
      \<lparr>className = None, children = [Text ''Footer content''], rest = [],
       showCloseButton = None\<rparr>) \<and>
   \<not> isl (renderSubRegion Some Some None CardFooterRegion
      \<lparr>className = None, children = [Text ''Footer content''], rest = [],
       showCloseButton = None\<rparr>)"
  using
    sub_region_outside_modal [of Some Some None ModalFooterRegion
      "\<lparr>className = None, children = [Text ''Footer content''], rest = [],
        showCloseButton = None\<rparr>"]
    sub_region_outside_modal [of Some Some "Some \<lparr>onClose = 1, titleId = ''modal-title-x''\<rparr>"
      ModalFooterRegion
      "\<lparr>className = None, children = [Text ''Footer content''], rest = [],
        showCloseButton = None\<rparr>"]
    sub_region_outside_modal [of Some Some None CardFooterRegion
      "\<lparr>className = None, children = [Text ''Footer content''], rest = [],
        showCloseButton = None\<rparr>"]
  by simp

subsection \<open>Button\<close>

lemma buttonMotionProps_keys:
  "map fst (buttonMotionProps p) = [''variants'', ''whileHover'', ''whileTap'']"
  by (simp add: buttonMotionProps_def Let_def)

lemma Button_props:
  "propOf (Button styles p) k =
     (case map_of (rev (restProps [''children'', ''className'', ''variant'', ''size'', ''loading'',
                ''disabled'', ''fullWidth'', ''leftIcon'', ''rightIcon'', ''type'',
                ''disableAnimations''] p)) k of
        Some v \<Rightarrow> Some v
      | None \<Rightarrow>
         (case map_of (rev (buttonMotionProps p)) k of
            Some v \<Rightarrow> Some v
          | None \<Rightarrow>
              map_of (rev [(''type'', AStr (withDefault ''button'' (type_prop p))),
                 (''className'', AStr (buttonClasses styles p)),
                 (''disabled'', ABool (withDefault False (disabled p) \<or> withDefault False (loading p))),
                 (''aria-busy'', ABool (withDefault False (loading p))),
                 (''aria-disabled'', ABool (withDefault False (disabled p) \<or> withDefault False (loading p)))]) k))"
  unfolding Button_def Let_def propOf.simps rev_append map_of_append map_add_def
  by (cases "map_of (rev (restProps [''children'', ''className'', ''variant'', ''size'', ''loading'',
                ''disabled'', ''fullWidth'', ''leftIcon'', ''rightIcon'', ''type'',
                ''disableAnimations''] p)) k"; cases "map_of (rev (buttonMotionProps p)) k")
     (simp_all only: option.case)


lemma Button_disabled:
  "propOf (Button styles p) ''disabled'' =
     Some (ABool (withDefault False (disabled p) \<or> withDefault False (loading p)))"
  by (simp add: Button_props restProps_named map_of_rev_absent buttonMotionProps_keys)

lemma Button_aria_busy:
  "propOf (Button styles p) ''aria-busy'' =
     (case map_of (rev (rest p)) ''aria-busy'' of
        Some v \<Rightarrow> Some v
      | None \<Rightarrow> Some (ABool (withDefault False (loading p))))"
  by (simp add: Button_props restProps_other map_of_rev_absent buttonMotionProps_keys
        split: option.splits)

lemma Button_aria_disabled:
  "propOf (Button styles p) ''aria-disabled'' =
     (case map_of (rev (rest p)) ''aria-disabled'' of
        Some v \<Rightarrow> Some v
      | None \<Rightarrow> Some (ABool (withDefault False (disabled p) \<or> withDefault False (loading p))))"
  by (simp add: Button_props restProps_other map_of_rev_absent buttonMotionProps_keys
        split: option.splits)

lemma Button_children_loading:
  "withDefault False (loading p) \<Longrightarrow>
     childrenOf (Button styles p) =
       [buttonSpinner styles,
        Element (Html ''span'') [(''className'', optAttr (styles ''content''))] (children p)]"
  by (simp add: Button_def Let_def split: option.splits)

lemma Button_type: "elementType (Button styles p) = Some (Motion ''button'')"
  by (simp add: Button_def Let_def)

text \<open>
  Claim C9 as stated, refuted. The caller's remaining properties are spread onto the
  button after \<open>aria-busy\<close> and \<open>aria-disabled\<close>, so a caller who passes these two
  attributes overrides them: this loading Button is rendered with both set to false.
\<close>

theorem Button_loading_aria_counterexample:
  "propOf (Button Some
      \<lparr>className = None, children = [Text ''Save''],
       rest = [(''aria-busy'', ABool False), (''aria-disabled'', ABool False)],
       variant = None, size_prop = None, loading = Some True, disabled = None,
       fullWidth = None, leftIcon = None, rightIcon = None, type_prop = None,
       disableAnimations = None\<rparr>) ''aria-busy'' = Some (ABool False) \<and>
   propOf (Button Some
      \<lparr>className = None, children = [Text ''Save''],
       rest = [(''aria-busy'', ABool False), (''aria-disabled'', ABool False)],
       variant = None, size_prop = None, loading = Some True, disabled = None,
       fullWidth = None, leftIcon = None, rightIcon = None, type_prop = None,
       disableAnimations = None\<rparr>) ''aria-disabled'' = Some (ABool False)"
  by (simp add: Button_aria_busy Button_aria_disabled)

text \<open>
  Claim C9, amended. The rendered element is a native button whose \<open>disabled\<close>
  property is \<open>disabled || loading\<close>, so it is enabled only when both are false. With
  \<open>loading\<close> true it is disabled, and its children are the spinner and the content
  span: neither icon is rendered. \<open>aria-busy\<close> and \<open>aria-disabled\<close> are true then
  unless the caller passes that attribute, and a value the caller passes is the value
  rendered.
\<close>

theorem Button_loading:
  "propOf (Button styles p) ''disabled'' =
     Some (ABool (withDefault False (disabled p) \<or> withDefault False (loading p))) \<and>
   map_option nativeTag (elementType (Button styles p)) = Some ''button'' \<and>
   (withDefault False (loading p) \<longrightarrow>
      propOf (Button styles p) ''disabled'' = Some (ABool True) \<and>
      childrenOf (Button styles p) =
        [buttonSpinner styles,
         Element (Html ''span'') [(''className'', optAttr (styles ''content''))] (children p)]) \<and>
   (withDefault False (loading p) \<and> map_of (rev (rest p)) ''aria-busy'' = None \<longrightarrow>
      propOf (Button styles p) ''aria-busy'' = Some (ABool True)) \<and>
   (withDefault False (loading p) \<and> map_of (rev (rest p)) ''aria-disabled'' = None \<longrightarrow>
      propOf (Button styles p) ''aria-disabled'' = Some (ABool True)) \<and>
   (map_of (rev (rest p)) ''aria-busy'' = Some busy \<longrightarrow>
      propOf (Button styles p) ''aria-busy'' = Some busy) \<and>
   (map_of (rev (rest p)) ''aria-disabled'' = Some dis \<longrightarrow>
      propOf (Button styles p) ''aria-disabled'' = Some dis)"
  by (simp add: Button_disabled Button_aria_busy Button_aria_disabled Button_children_loading
        Button_type)

theorem Button_loading_witness:
  "propOf (Button Some
      \<lparr>className = None, children = [Text ''Save''], rest = [(''aria-disabled'', ABool False)],
       variant = None, size_prop = None, loading = Some True, disabled = None,
       fullWidth = None, leftIcon = Some (Text ''<''), rightIcon = Some (Text ''>''),
       type_prop = None, disableAnimations = None\<rparr>) ''aria-busy'' = Some (ABool True) \<and>
   propOf (Button Some
      \<lparr>className = None, children = [Text ''Save''], rest = [(''aria-disabled'', ABool False)],
       variant = None, size_prop = None, loading = Some True, disabled = None,
       fullWidth = None, leftIcon = Some (Text ''<''), rightIcon = Some (Text ''>''),
       type_prop = None, disableAnimations = None\<rparr>) ''aria-disabled'' = Some (ABool False) \<and>
   propOf (Button Some
      \<lparr>className = None, children = [Text ''Save''], rest = [(''aria-disabled'', ABool False)],
       variant = None, size_prop = None, loading = Some True, disabled = None,
       fullWidth = None, leftIcon = Some (Text ''<''), rightIcon = Some (Text ''>''),
       type_prop = None, disableAnimations = None\<rparr>) ''disabled'' = Some (ABool True) \<and>
   childrenOf (Button Some
      \<lparr>className = None, children = [Text ''Save''], rest = [(''aria-disabled'', ABool False)],
       variant = None, size_prop = None, loading = Some True, disabled = None,
       fullWidth = None, leftIcon = Some (Text ''<''), rightIcon = Some (Text ''>''),
       type_prop = None, disableAnimations = None\<rparr>) =
     [buttonSpinner Some,
      Element (Html ''span'') [(''className'', AStr ''content'')] [Text ''Save'']]"
  using Button_loading [of Some
      "\<lparr>className = None, children = [Text ''Save''], rest = [(''aria-disabled'', ABool False)],
       variant = None, size_prop = None, loading = Some True, disabled = None,
       fullWidth = None, leftIcon = Some (Text ''<''), rightIcon = Some (Text ''>''),
       type_prop = None, disableAnimations = None\<rparr>" "ABool False" "ABool False"]
  by (simp add: withDefault_def optAttr_def)

subsection \<open>Card\<close>

lemma typed_no_plain_key:
  "card_props_typed p \<Longrightarrow> CHR ''-'' \<notin> set k \<Longrightarrow> map_of (rev (rest p)) k = None"
  by (auto simp: card_props_typed_def map_of_eq_None_iff list_all_iff)

lemma cardMotionProps_keys:
  "map fst (cardMotionProps p) =
     [''variants'', ''initial'', ''animate'', ''whileHover'', ''transition'']"
  by (simp add: cardMotionProps_def Let_def)

lemma Card_props:
  "propOf (Card styles p) k =
     (case map_of (rev (restProps [''children'', ''className'', ''elevation'', ''padding'', ''hover'',
                    ''onClick'', ''animate'', ''animationDelay'', ''isStaggerChild''] p)) k of
        Some v \<Rightarrow> Some v
      | None \<Rightarrow>
         (case map_of (rev (cardMotionProps p)) k of
            Some v \<Rightarrow> Some v
          | None \<Rightarrow>
              (case onClick p of
                 Some handler \<Rightarrow>
                   map_of (rev [(''className'', AStr (cardClasses styles p)),
                     (''onClick'', AHandler handler), (''type'', AStr ''button'')]) k
               | None \<Rightarrow> map_of (rev [(''className'', AStr (cardClasses styles p))]) k)))"
  unfolding Card_def Let_def
  by (cases "onClick p";
      cases "map_of (rev (restProps [''children'', ''className'', ''elevation'', ''padding'',
                 ''hover'', ''onClick'', ''animate'', ''animationDelay'', ''isStaggerChild''] p)) k";
      cases "map_of (rev (cardMotionProps p)) k")
     (simp_all only: option.case propOf.simps rev_append map_of_append map_add_def)

lemma Card_type_prop:
  "card_props_typed p \<Longrightarrow>
     propOf (Card styles p) ''type'' = (if onClick p = None then None else Some (AStr ''button''))"
  by (simp add: Card_props restProps_other typed_no_plain_key map_of_rev_absent
        cardMotionProps_keys split: option.splits)

lemma Card_onClick_prop:
  "propOf (Card styles p) ''onClick'' = map_option AHandler (onClick p)"
  by (simp add: Card_props restProps_named map_of_rev_absent cardMotionProps_keys
        split: option.splits)

lemma Card_className_prop:
  "propOf (Card styles p) ''className'' = Some (AStr (cardClasses styles p))"
  by (simp add: Card_props restProps_named map_of_rev_absent cardMotionProps_keys
        split: option.splits)

lemma Card_tag:
  "map_option nativeTag (elementType (Card styles p)) =
     Some (if onClick p = None then ''div'' else ''button'')"
  by (simp add: Card_def Let_def split: option.splits)

text \<open>
  Claim C10. For properties that type-check as \<open>CardProps\<close>, the Card renders a native
  button if and only if \<open>onClick\<close> is provided, with \<open>type\<close> set to \<open>button\<close>
  and the handler attached; otherwise it renders a native div with no click handler. In
  both cases the class name is the one \<open>cardClasses\<close> and the children are the Card's
  children.
\<close>

theorem Card_interactive:
  assumes "card_props_typed p"
  shows "(map_option nativeTag (elementType (Card styles p)) = Some ''button'' \<longleftrightarrow>
            onClick p \<noteq> None) \<and>
         (onClick p = None \<longrightarrow>
            map_option nativeTag (elementType (Card styles p)) = Some ''div'' \<and>
            propOf (Card styles p) ''onClick'' = None) \<and>
         (onClick p = Some handler \<longrightarrow>
            propOf (Card styles p) ''type'' = Some (AStr ''button'') \<and>
            propOf (Card styles p) ''onClick'' = Some (AHandler handler)) \<and>
         propOf (Card styles p) ''className'' = Some (AStr (cardClasses styles p)) \<and>
         childrenOf (Card styles p) = children p"
proof -
  have kids: "childrenOf (Card styles p) = children p"
    by (simp add: Card_def Let_def split: option.splits)
  from assms kids show ?thesis
    by (simp add: Card_tag Card_type_prop Card_onClick_prop Card_className_prop)
qed

theorem Card_interactive_witness:
  "card_props_typed
     \<lparr>className = Some ''custom-class'', children = [Text ''Click me''],
      rest = [(''data-testid'', AStr ''card'')], elevation = Some high, padding = None,
      hover = None, onClick = Some 1, animate_prop = None, animationDelay = None,
      isStaggerChild = None\<rparr> \<and>
   map_option nativeTag (elementType (Card Some
     \<lparr>className = Some ''custom-class'', children = [Text ''Click me''],
      rest = [(''data-testid'', AStr ''card'')], elevation = Some high, padding = None,
      hover = None, onClick = Some 1, animate_prop = None, animationDelay = None,
      isStaggerChild = None\<rparr>)) = Some ''button'' \<and>
   propOf (Card Some
     \<lparr>className = Some ''custom-class'', children = [Text ''Click me''],
      rest = [(''data-testid'', AStr ''card'')], elevation = Some high, padding = None,
      hover = None, onClick = Some 1, animate_prop = None, animationDelay = None,
      isStaggerChild = None\<rparr>) ''type'' = Some (AStr ''button'') \<and>
   propOf (Card Some
     \<lparr>className = Some ''custom-class'', children = [Text ''Click me''],
      rest = [(''data-testid'', AStr ''card'')], elevation = Some high, padding = None,
      hover = None, onClick = Some 1, animate_prop = None, animationDelay = None,
      isStaggerChild = None\<rparr>) ''className'' =
     Some (AStr ''zyfi-components card elevation-high padding-md interactive custom-class'')"
proof -
  have typed: "card_props_typed
     \<lparr>className = Some ''custom-class'', children = [Text ''Click me''],
      rest = [(''data-testid'', AStr ''card'')], elevation = Some high, padding = None,
      hover = None, onClick = Some 1, animate_prop = None, animationDelay = None,
      isStaggerChild = None\<rparr>"
    by (simp add: card_props_typed_def)
  from typed Card_interactive [OF typed, of Some 1] show ?thesis
    by (simp add: cardClasses_def classNames_def withDefault_def)
qed

subsection \<open>Reduced motion\<close>

lemma getTransition_duration:
  "duration (getTransition env t) = (if shouldReduceMotion env then 0.01 else duration t) \<and>
   ease (getTransition env t) = ease t"
  by (simp add: getTransition_def)

lemma presets_reduced:
  assumes "shouldReduceMotion env"
  shows "\<forall>tr \<in> set (transitionsOf (modalBackdrop env) @ transitionsOf (modalEnter env) @
            transitionsOf (modalMobileSlide env)). duration tr = 0.01"
  using assms
  by (simp add: transitionsOf_def modalBackdrop_def modalEnter_def modalMobileSlide_def
        getTransition_def)

lemma modalVariants_render_pref:
  "modalVariants moduleEnv (renderEnv\<lparr>prefersReducedMotion := b\<rparr>) ms =
     modalVariants moduleEnv renderEnv ms"
  by (simp add: modalVariants_def)

text \<open>
  Claim C8 as stated, refuted. The animations module is evaluated while the
  reduced-motion preference is off; the preference is then switched on and a Modal is
  rendered. The claim has the transitions of that render consult the preference at that
  moment and last (nearly) no time. They are the ones computed when the module was
  evaluated: 0.3 s for the backdrop, 0.3 s and 0.15 s for the dialog.
\<close>

theorem reduced_motion_counterexample:
  "shouldReduceMotion \<lparr>windowDefined = True, prefersReducedMotion = True, innerWidth = 1280\<rparr> \<and>
   map duration (transitionsOf (fst (modalVariants
       \<lparr>windowDefined = True, prefersReducedMotion = False, innerWidth = 1280\<rparr>
       \<lparr>windowDefined = True, prefersReducedMotion = True, innerWidth = 1280\<rparr> None)))
     = [0.3, 0.3] \<and>
   map duration (transitionsOf (snd (modalVariants
       \<lparr>windowDefined = True, prefersReducedMotion = False, innerWidth = 1280\<rparr>
       \<lparr>windowDefined = True, prefersReducedMotion = True, innerWidth = 1280\<rparr> None)))
     = [0.3, 0.15]"
  by (simp add: shouldReduceMotion_def modalVariants_def transitionsOf_def modalBackdrop_def
        modalEnter_def getTransition_def transitions_base_def transitions_fast_def withDefault_def)

text \<open>
  Claim C8, amended. \<open>getTransition\<close> consults the reduced-motion preference when it is
  called and, when the preference is set, replaces the duration by 0.01 s and keeps the
  easing. The modal presets call it once, when the animations module is evaluated: every
  transition a Modal render uses lasts 0.01 s when the preference was set at that moment,
  and the preference at the time of the render has no influence on them.
\<close>

theorem reduced_motion_transitions:
  "duration (getTransition env t) = (if shouldReduceMotion env then 0.01 else duration t) \<and>
   ease (getTransition env t) = ease t \<and>
   (shouldReduceMotion moduleEnv \<longrightarrow>
      (\<forall>tr \<in> set (transitionsOf (fst (modalVariants moduleEnv renderEnv mobileSlide)) @
                  transitionsOf (snd (modalVariants moduleEnv renderEnv mobileSlide))).
         duration tr = 0.01)) \<and>
   modalVariants moduleEnv (renderEnv\<lparr>prefersReducedMotion := b\<rparr>) mobileSlide =
     modalVariants moduleEnv renderEnv mobileSlide"
proof -
  have used: "shouldReduceMotion moduleEnv \<longrightarrow>
      (\<forall>tr \<in> set (transitionsOf (fst (modalVariants moduleEnv renderEnv mobileSlide)) @
                  transitionsOf (snd (modalVariants moduleEnv renderEnv mobileSlide))).
         duration tr = 0.01)"
    using presets_reduced [of moduleEnv]
    by (auto simp: modalVariants_def Let_def)
  from used getTransition_duration [of env t] modalVariants_render_pref [where moduleEnv = moduleEnv and renderEnv = renderEnv and b = b and ms = mobileSlide]
  show ?thesis by blast
qed

theorem reduced_motion_transitions_witness:
  "duration (getTransition \<lparr>windowDefined = True, prefersReducedMotion = True, innerWidth = 400\<rparr>
      transitions_slow) = 0.01 \<and>
   map duration (transitionsOf (snd (modalVariants
       \<lparr>windowDefined = True, prefersReducedMotion = True, innerWidth = 400\<rparr>
       \<lparr>windowDefined = True, prefersReducedMotion = False, innerWidth = 400\<rparr> None)))
     = [0.01, 0.01]"
  using reduced_motion_transitions [where
      env = "\<lparr>windowDefined = True, prefersReducedMotion = True, innerWidth = 400\<rparr>"
      and t = transitions_slow
      and moduleEnv = "\<lparr>windowDefined = True, prefersReducedMotion = True, innerWidth = 400\<rparr>"
      and renderEnv = "\<lparr>windowDefined = True, prefersReducedMotion = False, innerWidth = 400\<rparr>"
      and mobileSlide = None and b = True]
  by (simp add: shouldReduceMotion_def modalVariants_def transitionsOf_def
        modalMobileSlide_def getTransition_def withDefault_def)

end
